theory Spec2Isabelle
  imports Main
begin

section \<open>JavaScript values\<close>

text \<open>
  The values \<open>JSON.parse\<close> and \<open>response.json()\<close> produce. A JSON number is
  kept as an integer (fractions and exponents are outside the model); \<open>undefined\<close>,
  which is not a JSON value, is \<open>None\<close> of \<open>json option\<close>.
\<close>

datatype json =
    JNull
  | JBool bool
  | JNumber int
  | JString string
  | JArray "json list"
  | JObject "(string \<times> json) list"

text \<open>
  The exceptions of the program: \<open>Error msg\<close> is \<^verbatim>\<open>new Error(msg)\<close>; \<open>TypeError\<close>
  and \<open>SyntaxError\<close> are raised by the platform (a property read on \<open>null\<close>, a
  failed \<open>fetch\<close>, text that is not JSON), with a message text of the engine's own.
\<close>

datatype js_exn = Error string | TypeError | SyntaxError

text \<open>A settled promise: fulfilled with a value, or rejected with an exception.\<close>

datatype 'a Promise = Fulfilled 'a | Rejected js_exn

text \<open>JavaScript truthiness, as \<^verbatim>\<open>x || null\<close> and \<^verbatim>\<open>if (x)\<close> test it.\<close>

fun truthy :: "json \<Rightarrow> bool" where
  "truthy JNull = False"
| "truthy (JBool b) = b"
| "truthy (JNumber n) = (n \<noteq> 0)"
| "truthy (JString s) = (s \<noteq> [])"
| "truthy (JArray xs) = True"
| "truthy (JObject fs) = True"

text \<open>
  A property read \<^verbatim>\<open>v.k\<close>, for a key \<open>k\<close> that no prototype defines (\<open>token\<close>,
  \<open>detail\<close>, \<open>id\<close>): on \<open>null\<close> it throws a TypeError, on an object it yields the own
  property (the last one when the text repeated the key) or \<open>undefined\<close>, on any other
  value \<open>undefined\<close>.
\<close>

fun get_prop :: "json \<Rightarrow> string \<Rightarrow> js_exn + json option" where
  "get_prop JNull k = Inl TypeError"
| "get_prop (JObject fs) k = Inr (map_of (rev fs) k)"
| "get_prop v k = Inr None"

text \<open>Decimal text of a number, as a template literal or \<open>String(n)\<close> renders an integer.\<close>

definition digit_char :: "nat \<Rightarrow> char" where
  "digit_char d = ''0123456789'' ! (d mod 10)"

function show_nat :: "nat \<Rightarrow> string" where
  "show_nat n = (if n < 10 then [digit_char n] else show_nat (n div 10) @ [digit_char n])"
  by pat_completeness auto
termination
  by (relation "measure id") auto

declare show_nat.simps [simp del]

definition show_int :: "int \<Rightarrow> string" where
  "show_int i = (if i < 0 then CHR ''-'' # show_nat (nat (- i)) else show_nat (nat i))"

fun join_comma :: "string list \<Rightarrow> string" where
  "join_comma [] = []"
| "join_comma [s] = s"
| "join_comma (s # t # ss) = s @ '','' @ join_comma (t # ss)"

text \<open>
  \<open>String(v)\<close>, which a template literal and \<^verbatim>\<open>new Error(v)\<close> apply to a value that is
  not a string: an array joins its elements with commas (\<open>null\<close> elements as the empty
  text), an object is \<open>[object Object]\<close>.
\<close>

fun js_toString :: "json \<Rightarrow> string" where
  "js_toString JNull = ''null''"
| "js_toString (JBool b) = (if b then ''true'' else ''false'')"
| "js_toString (JNumber n) = show_int n"
| "js_toString (JString s) = s"
| "js_toString (JArray xs) =
     join_comma (map (\<lambda>x. if x = JNull then [] else js_toString x) xs)"
| "js_toString (JObject fs) = ''[object Object]''"

text \<open>\<^verbatim>\<open>new Error(v)\<close>: the message is \<open>String(v)\<close>, and empty when \<open>v\<close> is \<open>undefined\<close>.\<close>

fun new_Error :: "json option \<Rightarrow> js_exn" where
  "new_Error None = Error []"
| "new_Error (Some v) = Error (js_toString v)"


section \<open>A JSON reader for evaluation\<close>

text \<open>
  \<open>JSON.parse\<close> belongs to the platform, so the program's functions below take it as a
  parameter. To run them on concrete stored texts, this section gives a reader for the
  part of JSON those texts use: \<open>null\<close>, \<open>true\<close>, \<open>false\<close>, integers, strings without
  escapes, arrays and objects, with JSON's white space. \<open>None\<close> stands for the
  SyntaxError. (Text with escapes, fractions or exponents is outside this reader.)
\<close>

definition is_ws :: "char \<Rightarrow> bool" where
  "is_ws c = (c = CHR '' '' \<or> c = CHR 0x09 \<or> c = CHR 0x0A \<or> c = CHR 0x0D)"

fun skip_ws :: "string \<Rightarrow> string" where
  "skip_ws [] = []"
| "skip_ws (c # cs) = (if is_ws c then skip_ws cs else c # cs)"

definition is_digit :: "char \<Rightarrow> bool" where
  "is_digit c = (c \<in> set ''0123456789'')"

definition digit_val :: "char \<Rightarrow> nat" where
  "digit_val c = of_char c - 48"

definition nat_of_digits :: "string \<Rightarrow> nat" where
  "nat_of_digits ds = foldl (\<lambda>a c. 10 * a + digit_val c) 0 ds"

text \<open>The characters of a string up to its closing quote, and the text after it.\<close>

fun read_string :: "string \<Rightarrow> (string \<times> string) option" where
  "read_string [] = None"
| "read_string (c # cs) =
     (if c = CHR 0x22 then Some ([], cs)
      else if c = CHR 0x5C \<or> (of_char c :: nat) < 32 then None
      else map_option (\<lambda>(s, r). (c # s, r)) (read_string cs))"

text \<open>An unsigned integer: digits, no leading zero, not followed by a fraction or exponent.\<close>

definition read_nat :: "string \<Rightarrow> (nat \<times> string) option" where
  "read_nat cs =
     (let ds = takeWhile is_digit cs; r = dropWhile is_digit cs in
      if ds = [] then None
      else if hd ds = CHR ''0'' \<and> length ds > 1 then None
      else if r \<noteq> [] \<and> hd r \<in> set ''.eE'' then None
      else Some (nat_of_digits ds, r))"

definition strip_prefix :: "string \<Rightarrow> string \<Rightarrow> string option" where
  "strip_prefix p cs = (if take (length p) cs = p then Some (drop (length p) cs) else None)"

text \<open>
  Recursive descent. The first argument bounds the number of nested calls; every call
  but the outermost follows a consumed character, so \<open>parse_json_text\<close> starts from a
  bound above the length of the text.
\<close>

fun read_value :: "nat \<Rightarrow> string \<Rightarrow> (json \<times> string) option"
  and read_elements :: "nat \<Rightarrow> string \<Rightarrow> (json list \<times> string) option"
  and read_members :: "nat \<Rightarrow> string \<Rightarrow> ((string \<times> json) list \<times> string) option"
where
  "read_value 0 cs = None"
| "read_value (Suc n) cs =
     (case skip_ws cs of
        [] \<Rightarrow> None
      | c # r \<Rightarrow>
          if c = CHR 0x22 then map_option (\<lambda>(s, r'). (JString s, r')) (read_string r)
          else if c = CHR ''['' then
            (case skip_ws r of
               [] \<Rightarrow> None
             | d # r' \<Rightarrow>
                 if d = CHR '']'' then Some (JArray [], r')
                 else map_option (\<lambda>(xs, r''). (JArray xs, r'')) (read_elements n (d # r')))
          else if c = CHR ''{'' then
            (case skip_ws r of
               [] \<Rightarrow> None
             | d # r' \<Rightarrow>
                 if d = CHR ''}'' then Some (JObject [], r')
                 else map_option (\<lambda>(fs, r''). (JObject fs, r'')) (read_members n (d # r')))
          else if c = CHR ''-'' then map_option (\<lambda>(k, r'). (JNumber (- int k), r')) (read_nat r)
          else if is_digit c then map_option (\<lambda>(k, r'). (JNumber (int k), r')) (read_nat (c # r))
          else if c = CHR ''n'' then map_option (Pair JNull) (strip_prefix ''ull'' r)
          else if c = CHR ''t'' then map_option (Pair (JBool True)) (strip_prefix ''rue'' r)
          else if c = CHR ''f'' then map_option (Pair (JBool False)) (strip_prefix ''alse'' r)
          else None)"
| "read_elements 0 cs = None"
| "read_elements (Suc n) cs =
     (case read_value n cs of
        None \<Rightarrow> None
      | Some (x, r) \<Rightarrow>
          (case skip_ws r of
             [] \<Rightarrow> None
           | c # r' \<Rightarrow>
               if c = CHR '']'' then Some ([x], r')
               else if c = CHR '','' then map_option (\<lambda>(xs, r''). (x # xs, r'')) (read_elements n r')
               else None))"
| "read_members 0 cs = None"
| "read_members (Suc n) cs =
     (case skip_ws cs of
        [] \<Rightarrow> None
      | q # r0 \<Rightarrow>
          if q \<noteq> CHR 0x22 then None
          else
            (case read_string r0 of
               None \<Rightarrow> None
             | Some (k, r1) \<Rightarrow>
                 (case skip_ws r1 of
                    [] \<Rightarrow> None
                  | c # r2 \<Rightarrow>
                      if c \<noteq> CHR '':'' then None
                      else
                        (case read_value n r2 of
                           None \<Rightarrow> None
                         | Some (v, r3) \<Rightarrow>
                             (case skip_ws r3 of
                                [] \<Rightarrow> None
                              | e # r4 \<Rightarrow>
                                  if e = CHR ''}'' then Some ([(k, v)], r4)
                                  else if e = CHR '','' then
                                    map_option (\<lambda>(fs, r5). ((k, v) # fs, r5)) (read_members n r4)
                                  else None)))))"

definition parse_json_text :: "string \<Rightarrow> json option" where
  "parse_json_text cs =
     (case read_value (Suc (2 * length cs)) cs of
        None \<Rightarrow> None
      | Some (v, r) \<Rightarrow> if skip_ws r = [] then Some v else None)"

text \<open>
  The text \<open>JSON.stringify\<close> gives for a value whose strings need no escapes: no white
  space, properties in their order.
\<close>

fun json_text :: "json \<Rightarrow> string" where
  "json_text JNull = ''null''"
| "json_text (JBool b) = (if b then ''true'' else ''false'')"
| "json_text (JNumber n) = show_int n"
| "json_text (JString s) = [CHR 0x22] @ s @ [CHR 0x22]"
| "json_text (JArray xs) = ''['' @ join_comma (map json_text xs) @ '']''"
| "json_text (JObject fs) =
     ''{'' @ join_comma (map (\<lambda>(k, v). [CHR 0x22] @ k @ [CHR 0x22] @ '':'' @ json_text v) fs) @ ''}''"

section \<open>Browser storage\<close>

text \<open>
  \<open>localStorage\<close> and \<open>sessionStorage\<close> are key/value stores of strings.
  \<open>getItem\<close> yields \<open>null\<close> for a key that is not set (here \<open>None\<close>);
  \<open>setItem\<close> overwrites the slot.
\<close>

type_synonym Storage = "string \<rightharpoonup> string"

definition getItem :: "Storage \<Rightarrow> string \<Rightarrow> string option" where
  "getItem st k = st k"

definition setItem :: "Storage \<Rightarrow> string \<Rightarrow> string \<Rightarrow> Storage" where
  "setItem st k v = st(k \<mapsto> v)"

section \<open>The platform and the browser\<close>

text \<open>
  What the program takes from its platform: \<open>JSON.parse\<close> (\<open>None\<close> is its
  SyntaxError), \<open>JSON.stringify\<close>, \<open>fetch\<close> (the network and the remote service behind
  it: a response, or a rejection when the service cannot be reached), the build-time
  variable \<open>VITE_API_URL\<close>, and the text of \<^verbatim>\<open>new Date().toISOString()\<close> at the time the
  module was loaded.
\<close>

record RequestInit =
  http_method :: "string option"
  body :: "string option"
  headers :: "string \<rightharpoonup> string"

record Request =
  url :: string
  init :: RequestInit

record Response =
  status :: nat
  body_text :: string

record Platform =
  JSON_parse :: "string \<Rightarrow> json option"
  JSON_stringify :: "json \<Rightarrow> string"
  fetch :: "Request \<Rightarrow> Response Promise"
  VITE_API_URL :: "string option"
  loaded_at :: string

text \<open>The two stores, and the requests handed to \<open>fetch\<close> so far, oldest first.\<close>

record Browser =
  localStorage :: Storage
  sessionStorage :: Storage
  sent :: "Request list"

text \<open>\<open>response.ok\<close>: the status is in the range 200 to 299.\<close>

definition ok :: "Response \<Rightarrow> bool" where
  "ok r = (200 \<le> status r \<and> status r \<le> 299)"

text \<open>\<open>response.json()\<close>: the body text read as JSON, rejected when it is not JSON.\<close>

definition response_json :: "Platform \<Rightarrow> Response \<Rightarrow> json Promise" where
  "response_json P r =
     (case JSON_parse P (body_text r) of None \<Rightarrow> Rejected SyntaxError | Some v \<Rightarrow> Fulfilled v)"

text \<open>
  A platform to run the program on: the reader and writer of JSON given above, a service
  \<open>f\<close>, no \<open>VITE_API_URL\<close>, and a load time.
\<close>

definition platform_of :: "(Request \<Rightarrow> Response Promise) \<Rightarrow> Platform" where
  "platform_of f =
     \<lparr>JSON_parse = parse_json_text, JSON_stringify = json_text, fetch = f,
      VITE_API_URL = None, loaded_at = ''2026-01-01T00:00:00.000Z''\<rparr>"

text \<open>A service that cannot be reached: \<open>fetch\<close> rejects with a TypeError.\<close>

definition unreachable :: "Request \<Rightarrow> Response Promise" where
  "unreachable req = Rejected TypeError"

text \<open>A service that answers every request with the same response.\<close>

definition answering :: "nat \<Rightarrow> string \<Rightarrow> Request \<Rightarrow> Response Promise" where
  "answering code txt req = Fulfilled \<lparr>status = code, body_text = txt\<rparr>"

section \<open>Configuration\<close>

text \<open>
  \<^verbatim>\<open>
  storageKeys: { user: 'velocity_ai_user', remember: 'velocity_ai_remember' },
  api: { baseUrl: import.meta.env.VITE_API_URL || 'http://localhost:8000' },
  \<close>
\<close>

definition storageKeys_user :: string where
  "storageKeys_user = ''velocity_ai_user''"

definition API_BASE_URL :: "Platform \<Rightarrow> string" where
  "API_BASE_URL P =
     (case VITE_API_URL P of
        None \<Rightarrow> ''http://localhost:8000''
      | Some u \<Rightarrow> if u \<noteq> [] then u else ''http://localhost:8000'')"

section \<open>The API client\<close>

text \<open>
  One of the two branches of \<open>getAuthToken\<close>, which are the same code on the two stores:
  \<^verbatim>\<open>
    try {
      const parsed = JSON.parse(localUser);
      return parsed.token || null;
    } catch {
      return null;
    }
  \<close>
  The \<open>catch\<close> takes the SyntaxError of the parse and the TypeError of \<open>null.token\<close>.
  The value returned is whatever truthy value the \<open>token\<close> property holds.
\<close>

definition token_of_stored :: "Platform \<Rightarrow> string \<Rightarrow> json option" where
  "token_of_stored P stored =
     (case JSON_parse P stored of
        None \<Rightarrow> None
      | Some parsed \<Rightarrow>
          (case get_prop parsed ''token'' of
             Inl e \<Rightarrow> None
           | Inr None \<Rightarrow> None
           | Inr (Some t) \<Rightarrow> if truthy t then Some t else None))"

text \<open>
  \<^verbatim>\<open>
  function getAuthToken(): string | null {
    const localUser = localStorage.getItem(APP_CONFIG.storageKeys.user);
    if (localUser) { ... return ... }
    const sessionUser = sessionStorage.getItem(APP_CONFIG.storageKeys.user);
    if (sessionUser) { ... return ... }
    return null;
  }
  \<close>
  \<^verbatim>\<open>if (localUser)\<close> holds for a stored text that is not empty: \<open>if_truthy\<close> keeps
  such a text and yields \<open>None\<close> for \<open>null\<close> and for the empty text.
\<close>

fun if_truthy :: "string option \<Rightarrow> string option" where
  "if_truthy None = None"
| "if_truthy (Some s) = (if s = [] then None else Some s)"

definition getAuthToken :: "Platform \<Rightarrow> Browser \<Rightarrow> json option" where
  "getAuthToken P b =
     (case if_truthy (getItem (localStorage b) storageKeys_user) of
        Some localUser \<Rightarrow> token_of_stored P localUser
      | None \<Rightarrow>
          (case if_truthy (getItem (sessionStorage b) storageKeys_user) of
             Some sessionUser \<Rightarrow> token_of_stored P sessionUser
           | None \<Rightarrow> None))"

text \<open>
  Lines 92 to 106 of \<open>apiRequest\<close>, the request it hands to \<open>fetch\<close>:
  \<^verbatim>\<open>
  const token = getAuthToken();
  const headers: HeadersInit = {
    "Content-Type": "application/json",
    ...(options.headers || {}),
  };
  if (token) {
    (headers as Record<string, string>)["Authorization"] = `Bearer ${token}`;
  }
  const response = await fetch(`${API_BASE_URL}${endpoint}`, { ...options, headers });
  \<close>
\<close>

definition request_headers :: "Platform \<Rightarrow> Browser \<Rightarrow> RequestInit \<Rightarrow> (string \<rightharpoonup> string)" where
  "request_headers P b options =
     (let token = getAuthToken P b;
          headers0 = [''Content-Type'' \<mapsto> ''application/json''] ++ headers options
      in case token of
           None \<Rightarrow> headers0
         | Some t \<Rightarrow>
             if truthy t then headers0(''Authorization'' \<mapsto> ''Bearer '' @ js_toString t)
             else headers0)"

definition build_request :: "Platform \<Rightarrow> Browser \<Rightarrow> string \<Rightarrow> RequestInit \<Rightarrow> Request" where
  "build_request P b endpoint options =
     \<lparr>url = API_BASE_URL P @ endpoint,
      init = options\<lparr>headers := request_headers P b options\<rparr>\<rparr>"

text \<open>
  Lines 108 to 119, the reading of the response:
  \<^verbatim>\<open>
  if (!response.ok) {
    const error: ApiError = await response.json().catch(() => ({
      detail: `Request failed with status ${response.status}`,
    }));
    throw new Error(error.detail);
  }
  if (response.status === 204) {
    return undefined as T;
  }
  return response.json();
  \<close>
  The value returned is \<open>None\<close> for \<open>undefined\<close> and \<open>Some v\<close> for the decoded body; the
  cast to \<open>T\<close> checks nothing at run time.
\<close>

definition read_response :: "Platform \<Rightarrow> Response \<Rightarrow> json option Promise" where
  "read_response P response =
     (if \<not> ok response then
        (let error =
               (case response_json P response of
                  Rejected e \<Rightarrow>
                    JObject [(''detail'',
                      JString (''Request failed with status '' @ show_nat (status response)))]
                | Fulfilled v \<Rightarrow> v)
         in case get_prop error ''detail'' of
              Inl e \<Rightarrow> Rejected e
            | Inr d \<Rightarrow> Rejected (new_Error d))
      else if status response = 204 then Fulfilled None
      else
        (case response_json P response of
           Rejected e \<Rightarrow> Rejected e
         | Fulfilled v \<Rightarrow> Fulfilled (Some v)))"

text \<open>
  \<open>apiRequest\<close>: the promise it returns once settled, and the browser after the call
  (the stores as they were, the request added to those sent). A rejection of \<open>fetch\<close>
  is not caught, so it is the rejection of \<open>apiRequest\<close>.
\<close>

definition apiRequest ::
  "Platform \<Rightarrow> string \<Rightarrow> RequestInit \<Rightarrow> Browser \<Rightarrow> json option Promise \<times> Browser" where
  "apiRequest P endpoint options b =
     (let req = build_request P b endpoint options;
          b' = b\<lparr>sent := sent b @ [req]\<rparr>
      in case fetch P req of
           Rejected e \<Rightarrow> (Rejected e, b')
         | Fulfilled response \<Rightarrow> (read_response P response, b'))"



text \<open>A browser with both stores empty and nothing sent.\<close>

definition fresh_browser :: Browser where
  "fresh_browser = \<lparr>localStorage = Map.empty, sessionStorage = Map.empty, sent = []\<rparr>"

text \<open>No options: \<open>apiRequest(endpoint)\<close> with its default \<^verbatim>\<open>options = {}\<close>.\<close>

definition no_options :: RequestInit where
  "no_options = \<lparr>http_method = None, body = None, headers = Map.empty\<rparr>"

subsection \<open>Credential resolution as the specification words it\<close>

text \<open>
  The specification's \<open>resolve()\<close>, to compare \<open>getAuthToken\<close> with: a store's credential
  is readable when the store holds a payload that parses and carries a token, a payload
  that fails to parse counts as an absent one; the remember-store is read first, then the
  session-store, and the result is absent when neither is readable.
\<close>

definition readable :: "Platform \<Rightarrow> string option \<Rightarrow> json option" where
  "readable P slot = (case slot of None \<Rightarrow> None | Some stored \<Rightarrow> token_of_stored P stored)"

definition resolve_as_specified :: "Platform \<Rightarrow> Browser \<Rightarrow> json option" where
  "resolve_as_specified P b =
     (case readable P (getItem (localStorage b) storageKeys_user) of
        Some t \<Rightarrow> Some t
      | None \<Rightarrow> readable P (getItem (sessionStorage b) storageKeys_user))"

section \<open>ModeContext\<close>

text \<open>\<^verbatim>\<open>export type AppMode = "personal" | "workspace";\<close>\<close>

datatype AppMode = personal | workspace

text \<open>The string each member of the union type is at run time.\<close>

fun AppMode_string :: "AppMode \<Rightarrow> string" where
  "AppMode_string personal = ''personal''"
| "AppMode_string workspace = ''workspace''"

definition MODE_STORAGE_KEY :: string where
  "MODE_STORAGE_KEY = ''velocity_ai_mode''"

text \<open>
  \<^verbatim>\<open>
  function getStoredMode(): AppMode {
    const stored = localStorage.getItem(MODE_STORAGE_KEY);
    if (stored === "workspace" || stored === "personal") return stored;
    return "personal";
  }
  \<close>
\<close>

definition getStoredMode :: "Browser \<Rightarrow> AppMode" where
  "getStoredMode b =
     (let stored = getItem (localStorage b) MODE_STORAGE_KEY in
      if stored = Some ''workspace'' then workspace
      else if stored = Some ''personal'' then personal
      else personal)"

text \<open>
  \<^verbatim>\<open>
  export function ModeProvider({ children }: { children: ReactNode }) {
    const [mode, setModeState] = useState<AppMode>(() => getStoredMode());
    const setMode = (newMode: AppMode) => {
      setModeState(newMode);
      localStorage.setItem(MODE_STORAGE_KEY, newMode);
    };
    return (<ModeContext.Provider value={{ mode, setMode, isWorkspace: mode === "workspace" }}> ...
  \<close>
  The provider's state is the mode it holds; \<open>setMode\<close> changes it and the browser.
\<close>

record ModeProvider =
  mode :: AppMode
  browser :: Browser

definition ModeProvider_initial :: "Browser \<Rightarrow> ModeProvider" where
  "ModeProvider_initial b = \<lparr>mode = getStoredMode b, browser = b\<rparr>"

definition setMode :: "AppMode \<Rightarrow> ModeProvider \<Rightarrow> ModeProvider" where
  "setMode newMode s =
     \<lparr>mode = newMode,
      browser = (browser s)\<lparr>localStorage :=
        setItem (localStorage (browser s)) MODE_STORAGE_KEY (AppMode_string newMode)\<rparr>\<rparr>"

definition isWorkspace :: "ModeProvider \<Rightarrow> bool" where
  "isWorkspace s = (mode s = workspace)"

section \<open>AuthContext\<close>

text \<open>
  \<^verbatim>\<open>
  export interface User { id: number; email: string; name?: string; token?: string; created_at?: string; }
  export interface UserUpdate { email?: string; password?: string; name?: string; }
  \<close>
\<close>

record User =
  User_id :: int
  User_email :: string
  User_name :: "string option"
  User_token :: "string option"
  User_created_at :: "string option"

record UserUpdate =
  UserUpdate_email :: "string option"
  UserUpdate_password :: "string option"
  UserUpdate_name :: "string option"

text \<open>
  \<^verbatim>\<open>
  const DEFAULT_USER: User = {
    id: 1, email: "user@velocity.ai", name: "Velocity User", token: "local-dev",
    created_at: new Date().toISOString(),
  };
  \<close>
\<close>

definition DEFAULT_USER :: "Platform \<Rightarrow> User" where
  "DEFAULT_USER P =
     \<lparr>User_id = 1, User_email = ''user@velocity.ai'', User_name = Some ''Velocity User'',
      User_token = Some ''local-dev'', User_created_at = Some (loaded_at P)\<rparr>"

text \<open>
  The context value. An operation takes its arguments and the browser, and yields the
  settled promise (for \<open>logout\<close>, nothing) and the browser afterwards.
\<close>

record AuthContextType =
  user :: "User option"
  isLoading :: bool
  isAuthenticated :: bool
  login :: "string \<Rightarrow> string \<Rightarrow> bool option \<Rightarrow> Browser \<Rightarrow> User Promise \<times> Browser"
  signup :: "string \<Rightarrow> string \<Rightarrow> string option \<Rightarrow> Browser \<Rightarrow> User Promise \<times> Browser"
  updateProfile :: "UserUpdate \<Rightarrow> Browser \<Rightarrow> User Promise \<times> Browser"
  logout :: "Browser \<Rightarrow> Browser"

text \<open>
  \<^verbatim>\<open>
  export function AuthProvider({ children }: { children: ReactNode }) {
    const value: AuthContextType = {
      user: DEFAULT_USER, isLoading: false, isAuthenticated: true,
      login: async () => DEFAULT_USER,
      signup: async () => DEFAULT_USER,
      updateProfile: async () => DEFAULT_USER,
      logout: () => {},
    };
    return <AuthContext.Provider value={value}>{children}</AuthContext.Provider>;
  }
  \<close>
\<close>

definition AuthProvider :: "Platform \<Rightarrow> AuthContextType" where
  "AuthProvider P =
     \<lparr>user = Some (DEFAULT_USER P), isLoading = False, isAuthenticated = True,
      login = (\<lambda>email password rememberMe b. (Fulfilled (DEFAULT_USER P), b)),
      signup = (\<lambda>email password name b. (Fulfilled (DEFAULT_USER P), b)),
      updateProfile = (\<lambda>data b. (Fulfilled (DEFAULT_USER P), b)),
      logout = (\<lambda>b. b)\<rparr>"

text \<open>
  \<open>useAuth\<close>: the value of the nearest provider, and outside every provider
  (\<open>useContext\<close> yields \<open>undefined\<close>, here \<open>None\<close>) a value written out again in the
  same way.
\<close>

definition useAuth :: "Platform \<Rightarrow> AuthContextType option \<Rightarrow> AuthContextType" where
  "useAuth P context =
     (case context of
        None \<Rightarrow>
          \<lparr>user = Some (DEFAULT_USER P), isLoading = False, isAuthenticated = True,
           login = (\<lambda>email password rememberMe b. (Fulfilled (DEFAULT_USER P), b)),
           signup = (\<lambda>email password name b. (Fulfilled (DEFAULT_USER P), b)),
           updateProfile = (\<lambda>data b. (Fulfilled (DEFAULT_USER P), b)),
           logout = (\<lambda>b. b)\<rparr>
      | Some c \<Rightarrow> c)"

section \<open>ConversationSynchronizer\<close>

text \<open>
  Modelled from the spec: the ConversationSynchronizer (its state and its operation
  \<open>send\<close>, section 4.3), whose code, the chat page, is not among the sources. The calls
  it makes, \<open>createConversation\<close> and \<open>sendChatMessage\<close>, are the functions of the API
  client above. The state is the in-memory list of conversations (each under the id the
  service gave it, with the value the service returned), the message sequence, and the
  active conversation id. A message carries the conversation it is attached to (none
  while no conversation exists), its role, its content and a delivery status apart from
  the role.
\<close>

datatype Role = Role_user | Role_assistant

datatype Delivery = Delivery_pending | Delivery_sent | Delivery_failed

record LocalMessage =
  Message_conversation_id :: "int option"
  Message_role :: Role
  Message_content :: string
  Message_delivery :: Delivery

record Synchronizer =
  conversations :: "(int \<times> json) list"
  messages :: "LocalMessage list"
  activeConversationId :: "int option"










section \<open>Properties of ModeContext\<close>

text \<open>
  Claim C8. Whatever the mode slot of \<open>localStorage\<close> holds, \<open>getStoredMode\<close> yields
  \<open>workspace\<close> when the slot holds exactly the text \<open>workspace\<close>, \<open>personal\<close> when it holds
  exactly \<open>personal\<close>, and \<open>personal\<close> in every other case: the slot unset, or any other
  text. In the first two cases the value is the stored text itself. The function is total:
  no content of the slot makes it fail.
\<close>

theorem getStoredMode_decodes:
  "(getItem (localStorage b) MODE_STORAGE_KEY = Some ''workspace'' \<longrightarrow> getStoredMode b = workspace)
   \<and> (getItem (localStorage b) MODE_STORAGE_KEY = Some ''personal'' \<longrightarrow> getStoredMode b = personal)
   \<and> (getItem (localStorage b) MODE_STORAGE_KEY \<noteq> Some ''workspace''
        \<and> getItem (localStorage b) MODE_STORAGE_KEY \<noteq> Some ''personal'' \<longrightarrow> getStoredMode b = personal)
   \<and> (getItem (localStorage b) MODE_STORAGE_KEY = Some (AppMode_string (getStoredMode b))
        \<or> getStoredMode b = personal)"
  by (auto simp add: getStoredMode_def Let_def)

theorem getStoredMode_decodes_witness:
  "getStoredMode \<lparr>localStorage = [MODE_STORAGE_KEY \<mapsto> ''workspace''], sessionStorage = Map.empty, sent = []\<rparr>
     = workspace
   \<and> getStoredMode \<lparr>localStorage = [MODE_STORAGE_KEY \<mapsto> ''personal''], sessionStorage = Map.empty, sent = []\<rparr>
     = personal
   \<and> getStoredMode \<lparr>localStorage = [MODE_STORAGE_KEY \<mapsto> ''Workspace ''], sessionStorage = Map.empty, sent = []\<rparr>
     = personal
   \<and> getStoredMode \<lparr>localStorage = Map.empty, sessionStorage = Map.empty, sent = []\<rparr> = personal"
  using
    getStoredMode_decodes
      [of "\<lparr>localStorage = [MODE_STORAGE_KEY \<mapsto> ''workspace''], sessionStorage = Map.empty, sent = []\<rparr>"]
    getStoredMode_decodes
      [of "\<lparr>localStorage = [MODE_STORAGE_KEY \<mapsto> ''personal''], sessionStorage = Map.empty, sent = []\<rparr>"]
    getStoredMode_decodes
      [of "\<lparr>localStorage = [MODE_STORAGE_KEY \<mapsto> ''Workspace ''], sessionStorage = Map.empty, sent = []\<rparr>"]
    getStoredMode_decodes
      [of "\<lparr>localStorage = Map.empty, sessionStorage = Map.empty, sent = []\<rparr>"]
  by (simp add: getItem_def)

text \<open>
  Claim C9. For each of the two modes \<open>m\<close>, \<open>setMode m\<close> makes \<open>m\<close> the mode the provider
  holds and writes it to the mode slot, so that \<open>getStoredMode\<close> afterwards yields \<open>m\<close>
  (and a provider started afterwards holds \<open>m\<close>). It changes nothing else: the other
  slots of \<open>localStorage\<close>, \<open>sessionStorage\<close> and the requests sent are as before, so it
  sends no request.
\<close>

theorem setMode_persists:
  "mode (setMode m s) = m
   \<and> getStoredMode (browser (setMode m s)) = m
   \<and> mode (ModeProvider_initial (browser (setMode m s))) = m
   \<and> localStorage (browser (setMode m s))
       = (localStorage (browser s))(MODE_STORAGE_KEY \<mapsto> AppMode_string m)
   \<and> sessionStorage (browser (setMode m s)) = sessionStorage (browser s)
   \<and> sent (browser (setMode m s)) = sent (browser s)"
  by (cases m)
     (simp_all add: setMode_def getStoredMode_def ModeProvider_initial_def getItem_def setItem_def)

section \<open>Properties of AuthContext\<close>

text \<open>
  Claim C10. The authentication surface is constant. Inside the provider and outside it,
  \<open>useAuth\<close> gives the same value; its \<open>login\<close>, \<open>signup\<close> and \<open>updateProfile\<close> are
  fulfilled with the default user (id 1, email \<open>user@velocity.ai\<close>, token \<open>local-dev\<close>)
  whatever their arguments and whatever the stores hold, and leave the browser (both
  stores, the requests sent) as it was; \<open>logout\<close> leaves the browser as it was;
  \<open>isAuthenticated\<close> is true and \<open>user\<close> is the default user.
\<close>

theorem auth_surface_constant:
  "useAuth P None = AuthProvider P
   \<and> useAuth P (Some (AuthProvider P)) = AuthProvider P
   \<and> login (AuthProvider P) email password rememberMe b = (Fulfilled (DEFAULT_USER P), b)
   \<and> signup (AuthProvider P) email password name b = (Fulfilled (DEFAULT_USER P), b)
   \<and> updateProfile (AuthProvider P) data b = (Fulfilled (DEFAULT_USER P), b)
   \<and> logout (AuthProvider P) b = b
   \<and> isAuthenticated (AuthProvider P)
   \<and> \<not> isLoading (AuthProvider P)
   \<and> user (AuthProvider P) = Some (DEFAULT_USER P)
   \<and> User_id (DEFAULT_USER P) = 1
   \<and> User_email (DEFAULT_USER P) = ''user@velocity.ai''
   \<and> User_token (DEFAULT_USER P) = Some ''local-dev''"
  by (simp add: useAuth_def AuthProvider_def DEFAULT_USER_def)

section \<open>Facts for evaluation\<close>

lemma parse_malformed: \<open>parse_json_text ''{bad'' = None\<close>
  by code_simp

lemma parse_token_abc:
  \<open>parse_json_text ''{"token":"abc"}'' = Some (JObject [(''token'', JString ''abc'')])\<close>
  by code_simp

lemma parse_html: \<open>parse_json_text ''<html>'' = None\<close>
  by code_simp



lemma parse_ok_body:
  \<open>parse_json_text ''{"status":"ok"}'' = Some (JObject [(''status'', JString ''ok'')])\<close>
  by code_simp

lemma parse_empty_object: \<open>parse_json_text ''{}'' = Some (JObject [])\<close>
  by code_simp




lemma fetch_answering:
  "fetch (platform_of (answering code txt)) req = Fulfilled \<lparr>status = code, body_text = txt\<rparr>"
  by (simp add: platform_of_def answering_def)

lemma JSON_parse_platform_of: "JSON_parse (platform_of f) = parse_json_text"
  by (simp add: platform_of_def)

section \<open>Decimal text\<close>




section \<open>Properties of credential resolution\<close>

lemma token_of_stored_truthy: "token_of_stored P s = Some t \<Longrightarrow> truthy t"
  unfolding token_of_stored_def
  by (cases "JSON_parse P s"; simp;
      cases "get_prop (the (JSON_parse P s)) ''token''"; simp split: option.splits if_splits)

lemma token_of_stored_malformed: "JSON_parse P s = None \<Longrightarrow> token_of_stored P s = None"
  by (simp add: token_of_stored_def)

lemma getAuthToken_truthy: "getAuthToken P b = Some t \<Longrightarrow> truthy t"
  by (auto simp add: getAuthToken_def split: option.splits dest: token_of_stored_truthy)

text \<open>
  Claim C2, as stated, fails. With a malformed payload in the remember-store
  (\<open>localStorage\<close>) and a valid credential in the session-store, the specification's
  \<open>resolve()\<close> yields the session credential, and \<open>getAuthToken\<close> yields none: its
  \<open>catch\<close> returns \<open>null\<close> at once.
\<close>

theorem getAuthToken_fallthrough_counterexample:
  \<open>getAuthToken (platform_of unreachable)
      \<lparr>localStorage = [storageKeys_user \<mapsto> ''{bad''],
       sessionStorage = [storageKeys_user \<mapsto> ''{"token":"abc"}''], sent = []\<rparr>
     = None
   \<and> resolve_as_specified (platform_of unreachable)
      \<lparr>localStorage = [storageKeys_user \<mapsto> ''{bad''],
       sessionStorage = [storageKeys_user \<mapsto> ''{"token":"abc"}''], sent = []\<rparr>
     = Some (JString ''abc'')\<close>
  by (simp add: getAuthToken_def resolve_as_specified_def readable_def token_of_stored_def
      JSON_parse_platform_of getItem_def parse_malformed parse_token_abc)

lemma token_of_stored_object:
  "JSON_parse P s = Some (JObject fs) \<Longrightarrow>
   token_of_stored P s =
     (case map_of (rev fs) ''token'' of
        None \<Rightarrow> None
      | Some t \<Rightarrow> if truthy t then Some t else None)"
  by (simp add: token_of_stored_def)

lemma token_of_stored_other:
  "JSON_parse P s = Some v \<Longrightarrow> (\<forall>fs. v \<noteq> JObject fs) \<Longrightarrow> token_of_stored P s = None"
  by (cases v) (simp_all add: token_of_stored_def)

lemma getAuthToken_decided:
  "getItem (localStorage b) storageKeys_user = Some s \<and> s \<noteq> []
   \<or> (getItem (localStorage b) storageKeys_user = None
        \<or> getItem (localStorage b) storageKeys_user = Some [])
     \<and> getItem (sessionStorage b) storageKeys_user = Some s \<and> s \<noteq> []
   \<Longrightarrow> getAuthToken P b = token_of_stored P s"
  by (auto simp add: getAuthToken_def)

text \<open>
  Claim C2, amended. \<open>getAuthToken\<close> never fails, and the store it reads is decided by
  presence alone. The deciding payload is the remember-store's when that store holds a
  text that is not empty, whatever the session-store holds, and the session-store's when
  the remember-store holds none (or the empty text). The result is the token of the
  deciding payload when that payload parses to an object whose \<open>token\<close> is truthy, and
  absent in every other case: the payload does not parse, it parses to an object whose
  \<open>token\<close> is missing or falsy, or it parses to a value that is not an object. When
  neither store holds a payload the result is absent. A token that is returned is truthy.
\<close>

theorem getAuthToken_precedence:
  "(\<forall>s. (getItem (localStorage b) storageKeys_user = Some s \<and> s \<noteq> []
          \<or> (getItem (localStorage b) storageKeys_user = None
               \<or> getItem (localStorage b) storageKeys_user = Some [])
            \<and> getItem (sessionStorage b) storageKeys_user = Some s \<and> s \<noteq> []) \<longrightarrow>
       (\<forall>fs t. JSON_parse P s = Some (JObject fs) \<and> map_of (rev fs) ''token'' = Some t
            \<and> truthy t \<longrightarrow> getAuthToken P b = Some t)
     \<and> (JSON_parse P s = None \<longrightarrow> getAuthToken P b = None)
     \<and> (\<forall>fs t. JSON_parse P s = Some (JObject fs) \<and> map_of (rev fs) ''token'' = Some t
            \<and> \<not> truthy t \<longrightarrow> getAuthToken P b = None)
     \<and> (\<forall>fs. JSON_parse P s = Some (JObject fs) \<and> map_of (rev fs) ''token'' = None
            \<longrightarrow> getAuthToken P b = None)
     \<and> (\<forall>v. JSON_parse P s = Some v \<and> (\<forall>fs. v \<noteq> JObject fs) \<longrightarrow> getAuthToken P b = None))
   \<and> ((getItem (localStorage b) storageKeys_user = None
           \<or> getItem (localStorage b) storageKeys_user = Some [])
        \<and> (getItem (sessionStorage b) storageKeys_user = None
           \<or> getItem (sessionStorage b) storageKeys_user = Some []) \<longrightarrow>
       getAuthToken P b = None)
   \<and> (\<forall>t. getAuthToken P b = Some t \<longrightarrow> truthy t)"
proof (intro conjI allI impI)
  fix s fs t
  assume d: "getItem (localStorage b) storageKeys_user = Some s \<and> s \<noteq> []
          \<or> (getItem (localStorage b) storageKeys_user = None
               \<or> getItem (localStorage b) storageKeys_user = Some [])
            \<and> getItem (sessionStorage b) storageKeys_user = Some s \<and> s \<noteq> []"
    and p: "JSON_parse P s = Some (JObject fs) \<and> map_of (rev fs) ''token'' = Some t \<and> truthy t"
  from p show "getAuthToken P b = Some t"
    by (simp add: getAuthToken_decided [OF d] token_of_stored_object)
next
  fix s
  assume d: "getItem (localStorage b) storageKeys_user = Some s \<and> s \<noteq> []
          \<or> (getItem (localStorage b) storageKeys_user = None
               \<or> getItem (localStorage b) storageKeys_user = Some [])
            \<and> getItem (sessionStorage b) storageKeys_user = Some s \<and> s \<noteq> []"
    and p: "JSON_parse P s = None"
  from p show "getAuthToken P b = None"
    by (simp add: getAuthToken_decided [OF d] token_of_stored_malformed)
next
  fix s fs t
  assume d: "getItem (localStorage b) storageKeys_user = Some s \<and> s \<noteq> []
          \<or> (getItem (localStorage b) storageKeys_user = None
               \<or> getItem (localStorage b) storageKeys_user = Some [])
            \<and> getItem (sessionStorage b) storageKeys_user = Some s \<and> s \<noteq> []"
    and p: "JSON_parse P s = Some (JObject fs) \<and> map_of (rev fs) ''token'' = Some t \<and> \<not> truthy t"
  from p show "getAuthToken P b = None"
    by (simp add: getAuthToken_decided [OF d] token_of_stored_object)
next
  fix s fs
  assume d: "getItem (localStorage b) storageKeys_user = Some s \<and> s \<noteq> []
          \<or> (getItem (localStorage b) storageKeys_user = None
               \<or> getItem (localStorage b) storageKeys_user = Some [])
            \<and> getItem (sessionStorage b) storageKeys_user = Some s \<and> s \<noteq> []"
    and p: "JSON_parse P s = Some (JObject fs) \<and> map_of (rev fs) ''token'' = None"
  from p show "getAuthToken P b = None"
    by (simp add: getAuthToken_decided [OF d] token_of_stored_object)
next
  fix s v
  assume d: "getItem (localStorage b) storageKeys_user = Some s \<and> s \<noteq> []
          \<or> (getItem (localStorage b) storageKeys_user = None
               \<or> getItem (localStorage b) storageKeys_user = Some [])
            \<and> getItem (sessionStorage b) storageKeys_user = Some s \<and> s \<noteq> []"
    and p: "JSON_parse P s = Some v \<and> (\<forall>fs. v \<noteq> JObject fs)"
  from p show "getAuthToken P b = None"
    by (simp add: getAuthToken_decided [OF d] token_of_stored_other)
next
  assume "(getItem (localStorage b) storageKeys_user = None
           \<or> getItem (localStorage b) storageKeys_user = Some [])
        \<and> (getItem (sessionStorage b) storageKeys_user = None
           \<or> getItem (sessionStorage b) storageKeys_user = Some [])"
  then show "getAuthToken P b = None"
    by (auto simp add: getAuthToken_def)
next
  fix t assume "getAuthToken P b = Some t"
  then show "truthy t" by (rule getAuthToken_truthy)
qed

theorem getAuthToken_precedence_witness:
  \<open>getAuthToken (platform_of unreachable)
      \<lparr>localStorage = [storageKeys_user \<mapsto> ''{"token":"abc"}''],
       sessionStorage = [storageKeys_user \<mapsto> ''{bad''], sent = []\<rparr>
     = Some (JString ''abc'')
   \<and> getAuthToken (platform_of unreachable)
      \<lparr>localStorage = Map.empty,
       sessionStorage = [storageKeys_user \<mapsto> ''{"token":"abc"}''], sent = []\<rparr>
     = Some (JString ''abc'')
   \<and> getAuthToken (platform_of unreachable)
      \<lparr>localStorage = [storageKeys_user \<mapsto> ''{bad''],
       sessionStorage = [storageKeys_user \<mapsto> ''{"token":"abc"}''], sent = []\<rparr>
     = None
   \<and> getAuthToken (platform_of unreachable)
      \<lparr>localStorage = [storageKeys_user \<mapsto> ''{}''],
       sessionStorage = [storageKeys_user \<mapsto> ''{"token":"abc"}''], sent = []\<rparr>
     = None
   \<and> getAuthToken (platform_of unreachable) fresh_browser = None\<close>
proof -
  let ?P = "platform_of unreachable"
  let ?b1 = \<open>\<lparr>localStorage = [storageKeys_user \<mapsto> ''{"token":"abc"}''],
       sessionStorage = [storageKeys_user \<mapsto> ''{bad''], sent = []\<rparr>\<close>
  let ?b2 = \<open>\<lparr>localStorage = Map.empty,
       sessionStorage = [storageKeys_user \<mapsto> ''{"token":"abc"}''], sent = []\<rparr>\<close>
  let ?b3 = \<open>\<lparr>localStorage = [storageKeys_user \<mapsto> ''{bad''],
       sessionStorage = [storageKeys_user \<mapsto> ''{"token":"abc"}''], sent = []\<rparr>\<close>
  let ?b4 = \<open>\<lparr>localStorage = [storageKeys_user \<mapsto> ''{}''],
       sessionStorage = [storageKeys_user \<mapsto> ''{"token":"abc"}''], sent = []\<rparr>\<close>
  have 1: "getAuthToken ?P ?b1 = Some (JString ''abc'')"
    using getAuthToken_precedence [where b = ?b1 and P = ?P]
    by (simp add: getItem_def JSON_parse_platform_of parse_token_abc)
  have 2: "getAuthToken ?P ?b2 = Some (JString ''abc'')"
    using getAuthToken_precedence [where b = ?b2 and P = ?P]
    by (simp add: getItem_def JSON_parse_platform_of parse_token_abc)
  have 3: "getAuthToken ?P ?b3 = None"
    using getAuthToken_precedence [where b = ?b3 and P = ?P]
    by (simp add: getItem_def JSON_parse_platform_of parse_malformed)
  have 4: "getAuthToken ?P ?b4 = None"
    using getAuthToken_precedence [where b = ?b4 and P = ?P]
    by (simp add: getItem_def JSON_parse_platform_of parse_empty_object)
  have 5: "getAuthToken ?P fresh_browser = None"
    using getAuthToken_precedence [where b = fresh_browser and P = ?P]
    by (simp add: getItem_def fresh_browser_def)
  from 1 2 3 4 5 show ?thesis by simp
qed

text \<open>
  Claim C3, as stated, fails: the provider's operations keep no credential. After
  \<open>logout\<close> on a browser whose remember-store holds a credential, \<open>getAuthToken\<close> still
  yields its token; after \<open>login\<close> with \<open>rememberMe\<close> on a fresh browser, which is fulfilled
  with the default user, \<open>getAuthToken\<close> yields none.
\<close>

theorem logout_keeps_credential_counterexample:
  \<open>getAuthToken (platform_of unreachable)
      (logout (AuthProvider (platform_of unreachable))
        \<lparr>localStorage = [storageKeys_user \<mapsto> ''{"token":"abc"}''],
         sessionStorage = Map.empty, sent = []\<rparr>)
     = Some (JString ''abc'')
   \<and> fst (login (AuthProvider (platform_of unreachable)) ''a@b.c'' ''pw'' (Some True) fresh_browser)
     = Fulfilled (DEFAULT_USER (platform_of unreachable))
   \<and> getAuthToken (platform_of unreachable)
      (snd (login (AuthProvider (platform_of unreachable)) ''a@b.c'' ''pw'' (Some True) fresh_browser))
     = None
   \<and> User_token (DEFAULT_USER (platform_of unreachable)) = Some ''local-dev''\<close>
  by (simp add: getAuthToken_def token_of_stored_def JSON_parse_platform_of getItem_def
      parse_token_abc AuthProvider_def DEFAULT_USER_def fresh_browser_def)

text \<open>
  Claim C3, amended. \<open>login\<close>, \<open>signup\<close>, \<open>updateProfile\<close> and \<open>logout\<close> of the provider
  write to neither store and remove from neither: after each of them both stores are what
  they were, and \<open>getAuthToken\<close> yields what it yielded before the call, whatever the
  arguments (so also for both values of \<open>rememberMe\<close>).
\<close>

theorem auth_operations_keep_resolution:
  "getAuthToken P (snd (login (AuthProvider P) email password rememberMe b)) = getAuthToken P b
   \<and> getAuthToken P (snd (signup (AuthProvider P) email password name b)) = getAuthToken P b
   \<and> getAuthToken P (snd (updateProfile (AuthProvider P) data b)) = getAuthToken P b
   \<and> getAuthToken P (logout (AuthProvider P) b) = getAuthToken P b
   \<and> localStorage (logout (AuthProvider P) b) = localStorage b
   \<and> sessionStorage (logout (AuthProvider P) b) = sessionStorage b
   \<and> localStorage (snd (login (AuthProvider P) email password rememberMe b)) = localStorage b
   \<and> sessionStorage (snd (login (AuthProvider P) email password rememberMe b)) = sessionStorage b
   \<and> localStorage (snd (signup (AuthProvider P) email password name b)) = localStorage b
   \<and> sessionStorage (snd (signup (AuthProvider P) email password name b)) = sessionStorage b
   \<and> localStorage (snd (updateProfile (AuthProvider P) data b)) = localStorage b
   \<and> sessionStorage (snd (updateProfile (AuthProvider P) data b)) = sessionStorage b"
  by (simp add: AuthProvider_def)

section \<open>Properties of the request\<close>




lemma apiRequest_result:
  "fst (apiRequest P endpoint options b) =
     (case fetch P (build_request P b endpoint options) of
        Rejected e \<Rightarrow> Rejected e
      | Fulfilled r \<Rightarrow> read_response P r)"
  by (simp add: apiRequest_def Let_def split: Promise.splits)




section \<open>Properties of the response\<close>



lemma read_response_ok:
  "ok r \<Longrightarrow>
   read_response P r =
     (if status r = 204 then Fulfilled None
      else case JSON_parse P (body_text r) of
             None \<Rightarrow> Rejected SyntaxError
           | Some v \<Rightarrow> Fulfilled (Some v))"
  by (simp add: read_response_def response_json_def split: option.splits)





text \<open>
  Claim C6, as stated, fails, inside its own clause that 204 is the only success case
  without a body: a response with status 200 and the body \<^verbatim>\<open><html>\<close> is a success that
  carries a body, and \<open>apiRequest\<close> does not return that body decoded as the value: the
  promise is rejected with the SyntaxError of \<open>response.json()\<close>.
\<close>

theorem undecodable_body_counterexample:
  "ok \<lparr>status = 200, body_text = ''<html>''\<rparr>
   \<and> status \<lparr>status = 200, body_text = ''<html>''\<rparr> \<noteq> 204
   \<and> body_text \<lparr>status = 200, body_text = ''<html>''\<rparr> \<noteq> []
   \<and> fetch (platform_of (answering 200 ''<html>''))
        (build_request (platform_of (answering 200 ''<html>'')) fresh_browser ''/health'' no_options)
       = Fulfilled \<lparr>status = 200, body_text = ''<html>''\<rparr>
   \<and> fst (apiRequest (platform_of (answering 200 ''<html>'')) ''/health'' no_options fresh_browser)
       = Rejected SyntaxError"
  by (simp add: apiRequest_result fetch_answering read_response_ok ok_def JSON_parse_platform_of
      parse_html)

text \<open>
  Claim C6, amended. Take a response whose status is in 200 to 299, from a service for
  which 204 is the only success case that carries no body (the body is empty exactly when
  the status is 204). Then \<open>apiRequest\<close> yields the no-value result exactly when the
  response carries no body, and the no-value result is no value-bearing one. Every other
  such response has its body decoded: when it decodes, the decoded value is the result;
  when it does not decode, the promise is rejected with the decoder's SyntaxError.
\<close>

theorem no_value_iff_no_body:
  "fetch P (build_request P b endpoint options) = Fulfilled r \<and> ok r
     \<and> (body_text r = [] \<longleftrightarrow> status r = 204) \<longrightarrow>
     (fst (apiRequest P endpoint options b) = Fulfilled None \<longleftrightarrow> body_text r = [])
     \<and> (\<forall>v. fst (apiRequest P endpoint options b) \<noteq> Fulfilled None
            \<or> fst (apiRequest P endpoint options b) \<noteq> Fulfilled (Some v))
     \<and> (\<forall>v. body_text r \<noteq> [] \<and> JSON_parse P (body_text r) = Some v \<longrightarrow>
            fst (apiRequest P endpoint options b) = Fulfilled (Some v))
     \<and> (body_text r \<noteq> [] \<and> JSON_parse P (body_text r) = None \<longrightarrow>
            fst (apiRequest P endpoint options b) = Rejected SyntaxError)"
  by (auto simp add: apiRequest_result read_response_ok split: option.splits)

theorem no_value_iff_no_body_witness:
  \<open>fst (apiRequest (platform_of (answering 204 [])) ''/api/conversations/7''
         \<lparr>http_method = Some ''DELETE'', body = None, headers = Map.empty\<rparr> fresh_browser)
     = Fulfilled None
   \<and> fst (apiRequest (platform_of (answering 200 ''{"status":"ok"}'')) ''/health'' no_options
         fresh_browser)
     = Fulfilled (Some (JObject [(''status'', JString ''ok'')]))
   \<and> fst (apiRequest (platform_of (answering 200 ''<html>'')) ''/health'' no_options fresh_browser)
     = Rejected SyntaxError\<close>
proof -
  have 1: "fst (apiRequest (platform_of (answering 204 [])) ''/api/conversations/7''
         \<lparr>http_method = Some ''DELETE'', body = None, headers = Map.empty\<rparr> fresh_browser)
       = Fulfilled None"
    using no_value_iff_no_body [where P = "platform_of (answering 204 [])" and b = fresh_browser
        and endpoint = "''/api/conversations/7''"
        and options = "\<lparr>http_method = Some ''DELETE'', body = None, headers = Map.empty\<rparr>"
        and r = "\<lparr>status = 204, body_text = []\<rparr>"]
    by (simp add: fetch_answering ok_def)
  have 2: \<open>fst (apiRequest (platform_of (answering 200 ''{"status":"ok"}'')) ''/health'' no_options
         fresh_browser)
       = Fulfilled (Some (JObject [(''status'', JString ''ok'')]))\<close>
    using no_value_iff_no_body [where P = \<open>platform_of (answering 200 ''{"status":"ok"}'')\<close>
        and b = fresh_browser and endpoint = "''/health''" and options = no_options
        and r = \<open>\<lparr>status = 200, body_text = ''{"status":"ok"}''\<rparr>\<close>]
    by (simp add: fetch_answering ok_def JSON_parse_platform_of parse_ok_body)
  have 3: "fst (apiRequest (platform_of (answering 200 ''<html>'')) ''/health'' no_options
         fresh_browser) = Rejected SyntaxError"
    using no_value_iff_no_body [where P = "platform_of (answering 200 ''<html>'')"
        and b = fresh_browser and endpoint = "''/health''" and options = no_options
        and r = "\<lparr>status = 200, body_text = ''<html>''\<rparr>"]
    by (simp add: fetch_answering ok_def JSON_parse_platform_of parse_html)
  from 1 2 3 show ?thesis by simp
qed







section \<open>Properties of the ConversationSynchronizer\<close>






















end
